theory Spec2Isabelle
  imports Complex_Main
begin

section \<open>Data model of the dashboard (frontend/src/App.js)\<close>

text \<open>
  The dashboard keeps four pieces of React state: \<^verbatim>\<open>formData\<close>, \<^verbatim>\<open>loading\<close>,
  \<^verbatim>\<open>results\<close> and \<^verbatim>\<open>error\<close>. \<^verbatim>\<open>results\<close> is \<^verbatim>\<open>null\<close> until a run has
  completed and is then the JSON body answered by the analyze endpoint. The fields below
  are those of that body, under the names the component and the README give them; only
  \<^verbatim>\<open>file\<close> and \<^verbatim>\<open>fixes\<close> are reserved words here and appear as \<open>file_name\<close> and
  \<open>result_fixes\<close>.
\<close>

datatype bug_type = LINTING | SYNTAX | TYPE_ERROR | INDENTATION | IMPORT

datatype fix_status = Fixed | Failed

datatype run_status = PASSED | FAILED | RUNNING

record fix_entry =
  file_name :: string
  bug_type :: bug_type
  line_number :: nat
  commit_message :: string
  status :: fix_status
  fix_detail :: string

record cicd_run =
  iteration :: nat
  run_status :: run_status
  timestamp :: real

text \<open>
  JavaScript numbers are doubles. \<^verbatim>\<open>total_time_taken\<close> is only ever compared with
  \<^verbatim>\<open>300\<close>, which is exact on doubles, so it is a \<^typ>\<open>real\<close> here.
  \<^verbatim>\<open>total_fixes_applied\<close> is a count, an \<^typ>\<open>int\<close> here: below \<open>2 ^ 53\<close> the
  arithmetic of \<^verbatim>\<open>calculateScore\<close> on it is exact, and above it the score is far
  below zero before and after rounding, so the clamp returns \<open>0\<close> either way.
\<close>

record analysis_result =
  repo_url :: string
  team_name :: string
  leader_name :: string
  branch_name :: string
  branch_url :: string
  push_status :: string
  token_used :: string
  push_destination :: string
  total_failures_detected :: int
  total_fixes_applied :: int
  cicd_status :: run_status
  total_iterations :: int
  total_time_taken :: real
  result_fixes :: "fix_entry list"
  cicd_runs :: "cicd_run list"

section \<open>The score\<close>

text \<open>
  \<^verbatim>\<open>
  const calculateScore = () => {
    if (!results) return 0;
    let score = 100;
    if (results.total_time_taken < 300) score += 10;
    if (results.total_fixes_applied > 20) {
      score -= (results.total_fixes_applied - 20) * 2;
    }
    return Math.max(score, 0);
  };
  \<close>
  The closure reads the state variable \<^verbatim>\<open>results\<close>; the model takes it as its
  argument, \<open>None\<close> for \<^verbatim>\<open>null\<close>. A JSON object may carry fields the component
  never reads, so the argument is any extension of the record.
\<close>

definition calculateScore :: "'a analysis_result_scheme option \<Rightarrow> int" where
  "calculateScore res =
     (case res of
        None \<Rightarrow> 0
      | Some r \<Rightarrow>
          (let score = 100;
               score = (if total_time_taken r < 300 then score + 10 else score);
               score = (if total_fixes_applied r > 20
                        then score - (total_fixes_applied r - 20) * 2 else score)
           in max score 0))"

text \<open>A result object with the two fields the score reads, everything else blank.\<close>

definition mk_results :: "int \<Rightarrow> real \<Rightarrow> analysis_result" where
  "mk_results f t =
     \<lparr>repo_url = [], team_name = [], leader_name = [], branch_name = [], branch_url = [],
      push_status = [], token_used = [], push_destination = [],
      total_failures_detected = 0, total_fixes_applied = f, cicd_status = PASSED,
      total_iterations = 0, total_time_taken = t, result_fixes = [], cicd_runs = []\<rparr>"

text \<open>A second result object: the score's two fields as above, the rest filled in.\<close>

definition other_results :: analysis_result where
  "other_results =
     (mk_results 25 250)
       \<lparr>repo_url := ''https://github.com/username/repo'', team_name := ''RIFT ORGANISERS'',
        branch_name := ''RIFT_ORGANISERS_JOHN_DOE_AI_Fix'', cicd_status := FAILED,
        total_iterations := 5,
        result_fixes := [\<lparr>file_name = ''a.py'', bug_type = LINTING, line_number = 1,
                          commit_message = ''[AI-AGENT] fix'', status = Failed,
                          fix_detail = []\<rparr>],
        cicd_runs := [\<lparr>iteration = 1, run_status = FAILED, timestamp = 0\<rparr>]\<rparr>"

section \<open>The iteration counter of the dashboard\<close>

text \<open>
  \<^verbatim>\<open>{results.total_iterations}/{results.cicd_runs?.length || 5}\<close>

  The timeline header shows the iterations of the run over the number of pipeline runs,
  and over 5 when there is none (\<^verbatim>\<open>0\<close> and \<^verbatim>\<open>undefined\<close> are both falsy).
\<close>

definition iterations_display :: "'a analysis_result_scheme \<Rightarrow> int \<times> int" where
  "iterations_display r =
     (total_iterations r,
      if length (cicd_runs r) = 0 then 5 else int (length (cicd_runs r)))"

section \<open>Starting a run\<close>

text \<open>
  \<^verbatim>\<open>
  const handleRun = async () => {
    if (!formData.repoUrl || !formData.teamName || !formData.leaderName) {
      setError('Please fill in all required fields');
      return;
    }
    setError('');
    setLoading(true);
    setResults(null);
    try {
      const response = await axios.post('http://localhost:8000/analyze', {
        repo_url: formData.repoUrl,
        team_name: formData.teamName,
        leader_name: formData.leaderName,
        github_token: formData.githubToken
      });
      setResults(response.data);
    } catch (err) {
      console.error("Agent failed", err);
      setError(err.response?.data?.detail || "Agent execution failed. Check console.");
    }
    setLoading(false);
  };
  \<close>
  The form fields are strings (the values of text inputs), so \<^verbatim>\<open>!formData.repoUrl\<close>
  holds exactly for the empty string. The handler's effects on the outside world (the
  state setters, the request, the console) are modelled as the list of effects it
  performs, in order; the answer of the network is a parameter \<open>post\<close>.
\<close>

record formData =
  repoUrl :: string
  teamName :: string
  leaderName :: string
  githubToken :: string

record analyze_body =
  body_repo_url :: string
  body_team_name :: string
  body_leader_name :: string
  body_github_token :: string

text \<open>
  \<^verbatim>\<open>axios.post\<close> either resolves with the response data or rejects with an error;
  \<open>Rejected d\<close> carries \<^verbatim>\<open>err.response?.data?.detail\<close>, \<open>None\<close> when the chain is
  undefined.
\<close>

datatype post_outcome = Resolved analysis_result | Rejected "string option"

datatype effect =
    SetError string
  | SetLoading bool
  | SetResults "analysis_result option"
  | Post string analyze_body
  | ConsoleError string

definition request_body :: "formData \<Rightarrow> analyze_body" where
  "request_body fd =
     \<lparr>body_repo_url = repoUrl fd, body_team_name = teamName fd,
      body_leader_name = leaderName fd, body_github_token = githubToken fd\<rparr>"

definition handleRun :: "formData \<Rightarrow> (string \<Rightarrow> analyze_body \<Rightarrow> post_outcome) \<Rightarrow> effect list" where
  "handleRun fd post =
     (if repoUrl fd = [] \<or> teamName fd = [] \<or> leaderName fd = []
      then [SetError ''Please fill in all required fields'']
      else
        [SetError [], SetLoading True, SetResults None,
         Post ''http://localhost:8000/analyze'' (request_body fd)]
        @ (case post ''http://localhost:8000/analyze'' (request_body fd) of
             Resolved d \<Rightarrow> [SetResults (Some d)]
           | Rejected detail \<Rightarrow>
               [ConsoleError ''Agent failed'',
                SetError (case detail of
                            None \<Rightarrow> ''Agent execution failed. Check console.''
                          | Some m \<Rightarrow> if m = [] then ''Agent execution failed. Check console.''
                                      else m)])
        @ [SetLoading False])"

text \<open>The requests among the effects, and the effects applied to the component's state.\<close>

fun post_of :: "effect \<Rightarrow> (string \<times> analyze_body) list" where
  "post_of (Post u b) = [(u, b)]"
| "post_of _ = []"

definition posts :: "effect list \<Rightarrow> (string \<times> analyze_body) list" where
  "posts es = concat (map post_of es)"

record ui_state =
  loading :: bool
  results :: "analysis_result option"
  error :: string

fun apply_effect :: "effect \<Rightarrow> ui_state \<Rightarrow> ui_state" where
  "apply_effect (SetError m) s = s\<lparr>error := m\<rparr>"
| "apply_effect (SetLoading b) s = s\<lparr>loading := b\<rparr>"
| "apply_effect (SetResults r) s = s\<lparr>results := r\<rparr>"
| "apply_effect (Post u b) s = s"
| "apply_effect (ConsoleError m) s = s"

definition run_effects :: "effect list \<Rightarrow> ui_state \<Rightarrow> ui_state" where
  "run_effects es s = fold apply_effect es s"

text \<open>Two forms and two servers for concrete runs.\<close>

definition form_no_leader :: formData where
  "form_no_leader =
     \<lparr>repoUrl = ''https://github.com/username/repo'', teamName = ''RIFT ORGANISERS'',
      leaderName = [], githubToken = ''ghp_x''\<rparr>"

definition form_no_token :: formData where
  "form_no_token =
     \<lparr>repoUrl = ''https://github.com/username/repo'', teamName = ''RIFT ORGANISERS'',
      leaderName = ''John Doe'', githubToken = []\<rparr>"

definition server_ok :: "string \<Rightarrow> analyze_body \<Rightarrow> post_outcome" where
  "server_ok u b = Resolved (mk_results 5 (452 / 10))"

definition server_down :: "string \<Rightarrow> analyze_body \<Rightarrow> post_outcome" where
  "server_down u b = Rejected None"

section \<open>The healing core (backend)\<close>

text \<open>
  The dashboard only displays what the analyze endpoint answers. The code that produces
  the answer (the backend's \<^verbatim>\<open>agent_logic.py\<close>: scanner, fix engine, pipeline simulator
  and the loop around them) is not among the sources, so this section follows the
  specification, sections 3 to 5 and 8.
\<close>

text \<open>
  Modelled from the spec: the Finding record of section 3 (file path, defect kind, line
  number, raw matched text, severity), which the missing scanner creates.
\<close>

record finding =
  finding_file :: string
  defect_kind :: bug_type
  finding_line :: nat
  matched_text :: string
  severity :: string

subsection \<open>Pipeline Simulator\<close>

text \<open>
  Modelled from the spec: the working copy state handed to the Pipeline Simulator, which
  is missing from the sources. In the minimal design of section 4.3 it is what the verdict
  counts: the Findings still unresolved and the Fixes of the current iteration.
\<close>

record working_copy_state =
  remaining_findings :: "finding list"
  current_fixes :: "fix_entry list"

text \<open>
  Modelled from the spec: the Pipeline Simulator's verdict function \<^verbatim>\<open>evaluate\<close>, which
  is missing from the sources. Section 4.3: given the current working copy state (in the
  minimal design, the count of currently Failed Fixes or remaining Findings), return PASSED
  if no unresolved Findings remain and no Fix in the current iteration has status Failed,
  otherwise FAILED.
\<close>

definition evaluate :: "working_copy_state \<Rightarrow> run_status" where
  "evaluate ws =
     (if length (remaining_findings ws) = 0
         \<and> length (filter (\<lambda>x. status x = Failed) (current_fixes ws)) = 0
      then PASSED else FAILED)"

subsection \<open>Healing Loop\<close>

text \<open>
  Modelled from the spec: the Healing Loop (Orchestrator), which is missing from the
  sources. Section 4.4 gives its states and transitions; section 3 the records it
  builds; section 8, Scenario C, the case \<open>max_iterations = 0\<close>.

  The scanner, the fix engine, the pipeline evaluation and the wall clock are the
  capabilities the loop calls; they are parameters here, of any behaviour:
  \<^item> \<open>scan\<close> reads the working copy afresh and lists its Findings (an unreadable file is
    skipped inside it);
  \<^item> \<open>apply_fix\<close> attempts one Finding and returns the Fix record, Fixed or Failed, with
    the rewritten working copy;
  \<^item> \<open>simulate\<close> is the pipeline evaluation on the working copy and the Fixes of the
    current iteration, \<open>None\<close> when the evaluator itself errors (SIMULATION_ERROR, which
    counts as a FAILED verdict);
  \<^item> \<open>clock n\<close> is the wall-clock time when \<open>n\<close> iterations are complete.
\<close>

datatype phase = READY | SCANNING | FIXING | SIMULATING | DONE_PASSED | DONE_EXHAUSTED

text \<open>
  Modelled from the spec: the inputs of a run (section 6) and the capabilities above, for
  the missing loop.
\<close>

record 'w run_config =
  max_iterations :: nat
  scan :: "'w \<Rightarrow> finding list"
  apply_fix :: "finding \<Rightarrow> 'w \<Rightarrow> fix_entry \<times> 'w"
  simulate :: "'w \<Rightarrow> fix_entry list \<Rightarrow> run_status option"
  clock :: "nat \<Rightarrow> real"

text \<open>
  Modelled from the spec: the context threaded through the missing loop (section 9): the
  state of the machine, the count of completed iterations, the working copy, the Findings
  of the current scan, the Fixes of the current iteration and of the whole run, the run
  history, the Findings counted so far and the two recorded wall-clock times.
\<close>

record 'w loop_ctx =
  phase :: phase
  iteration_count :: nat
  working_copy :: 'w
  findings :: "finding list"
  iteration_fixes :: "fix_entry list"
  all_fixes :: "fix_entry list"
  pipeline_runs :: "cicd_run list"
  failures_detected :: nat
  started_at :: real
  finished_at :: real

text \<open>Modelled from the spec: the default of \<open>max_iterations\<close> (sections 4.4 and 6).\<close>

definition default_max_iterations :: nat where
  "default_max_iterations = 5"

text \<open>
  Modelled from the spec: the context of a run in state READY, before the first
  transition: nothing scanned, fixed or simulated yet.
\<close>

definition init :: "'w \<Rightarrow> 'w loop_ctx" where
  "init w =
     \<lparr>phase = READY, iteration_count = 0, working_copy = w, findings = [],
      iteration_fixes = [], all_fixes = [], pipeline_runs = [], failures_detected = 0,
      started_at = 0, finished_at = 0\<rparr>"

text \<open>
  Modelled from the spec: the FIXING state of the missing loop. Every Finding of the
  current scan gets one Fix attempt, in the scan's order, each on the working copy the
  previous attempt left.
\<close>

fun fix_all :: "(finding \<Rightarrow> 'w \<Rightarrow> fix_entry \<times> 'w) \<Rightarrow> finding list \<Rightarrow> 'w \<Rightarrow> fix_entry list \<times> 'w" where
  "fix_all ap [] w = ([], w)"
| "fix_all ap (f # fs) w =
     (case ap f w of (x, w') \<Rightarrow>
        (case fix_all ap fs w' of (xs, w'') \<Rightarrow> (x # xs, w'')))"

text \<open>
  Modelled from the spec: one transition of the state machine of section 4.4, for the
  missing loop. An iteration is complete when its verdict is
  recorded: the SIMULATING step counts it, appends its PipelineRun and then decides, on
  the count that includes it, between DONE(PASSED), another SCANNING and DONE(EXHAUSTED).
  With \<open>max_iterations = 0\<close> the run leaves READY for DONE(EXHAUSTED) at once (Scenario C).
  The last branch is the spec's guard \<open>iteration count = max_iterations\<close>: a run never
  counts beyond its budget (\<open>loop_inv_count_le\<close> below). The DONE states have no
  transition.
\<close>

definition step :: "'w run_config \<Rightarrow> 'w loop_ctx \<Rightarrow> 'w loop_ctx" where
  "step cfg c =
     (case phase c of
        READY \<Rightarrow>
          if max_iterations cfg = 0
          then c\<lparr>phase := DONE_EXHAUSTED, started_at := clock cfg 0, finished_at := clock cfg 0\<rparr>
          else c\<lparr>phase := SCANNING, started_at := clock cfg 0\<rparr>
      | SCANNING \<Rightarrow>
          (let fs = scan cfg (working_copy c)
           in c\<lparr>phase := FIXING, findings := fs,
                failures_detected := failures_detected c + length fs\<rparr>)
      | FIXING \<Rightarrow>
          (case fix_all (apply_fix cfg) (findings c) (working_copy c) of
             (xs, w') \<Rightarrow>
               c\<lparr>phase := SIMULATING, working_copy := w', findings := [],
                 iteration_fixes := xs, all_fixes := all_fixes c @ xs\<rparr>)
      | SIMULATING \<Rightarrow>
          (let n = Suc (iteration_count c);
               v = (if simulate cfg (working_copy c) (iteration_fixes c) = Some PASSED
                    then PASSED else FAILED);
               c' = c\<lparr>iteration_count := n,
                      pipeline_runs := pipeline_runs c
                        @ [\<lparr>iteration = n, run_status = v, timestamp = clock cfg n\<rparr>]\<rparr>
           in if v = PASSED then c'\<lparr>phase := DONE_PASSED, finished_at := clock cfg n\<rparr>
              else if n < max_iterations cfg then c'\<lparr>phase := SCANNING\<rparr>
              else c'\<lparr>phase := DONE_EXHAUSTED, finished_at := clock cfg n\<rparr>)
      | DONE_PASSED \<Rightarrow> c
      | DONE_EXHAUSTED \<Rightarrow> c)"

definition is_done :: "'w loop_ctx \<Rightarrow> bool" where
  "is_done c = (phase c = DONE_PASSED \<or> phase c = DONE_EXHAUSTED)"

text \<open>How far a state is from the end of its iteration, for the termination order.\<close>

fun phase_rank :: "phase \<Rightarrow> nat" where
  "phase_rank READY = 4"
| "phase_rank SCANNING = 3"
| "phase_rank FIXING = 2"
| "phase_rank SIMULATING = 1"
| "phase_rank DONE_PASSED = 0"
| "phase_rank DONE_EXHAUSTED = 0"

text \<open>
  Modelled from the spec: the missing loop itself, which takes transitions until a DONE
  state is reached.
\<close>

function run :: "'w run_config \<Rightarrow> 'w loop_ctx \<Rightarrow> 'w loop_ctx" where
  "run cfg c = (if is_done c then c else run cfg (step cfg c))"
  by pat_completeness auto
termination
proof (relation "measure (\<lambda>(cfg, c). 5 * (max_iterations cfg - iteration_count c) + phase_rank (phase c))")
  show "wf (measure (\<lambda>(cfg :: 'w run_config, c :: 'w loop_ctx).
              5 * (max_iterations cfg - iteration_count c) + phase_rank (phase c)))"
    by simp
next
  fix cfg :: "'w run_config" and c :: "'w loop_ctx"
  assume "\<not> is_done c"
  then show "((cfg, step cfg c), (cfg, c))
               \<in> measure (\<lambda>(cfg, c). 5 * (max_iterations cfg - iteration_count c) + phase_rank (phase c))"
    by (cases "phase c") (auto simp: step_def is_done_def Let_def split: prod.splits)
qed

declare run.simps [simp del]

text \<open>
  Modelled from the spec: the finalization of the missing loop (sections 3 and 9). The
  AnalysisResult is built once, at termination, from the context; \<open>base\<close> carries what
  the Source Acquirer and the Publisher contribute (repository identity, team and leader,
  branch, push outcome).
\<close>

definition finalize :: "analysis_result \<Rightarrow> 'w loop_ctx \<Rightarrow> analysis_result" where
  "finalize base c =
     base\<lparr>total_failures_detected := int (failures_detected c),
          total_fixes_applied := int (length (all_fixes c)),
          cicd_status := (if phase c = DONE_PASSED then PASSED else FAILED),
          total_iterations := int (iteration_count c),
          total_time_taken := finished_at c - started_at c,
          result_fixes := all_fixes c,
          cicd_runs := pipeline_runs c\<rparr>"

text \<open>
  Modelled from the spec: one invocation of the missing core, from a working copy to its
  AnalysisResult.
\<close>

definition heal :: "'w run_config \<Rightarrow> analysis_result \<Rightarrow> 'w \<Rightarrow> analysis_result" where
  "heal cfg base w = finalize base (run cfg (init w))"

text \<open>
  The state after \<open>k\<close> transitions of a run on working copy \<open>w\<close>, and the number of
  iterations completed by then: the SIMULATING steps among the first \<open>k\<close> transitions.
\<close>

definition state_after :: "'w run_config \<Rightarrow> 'w \<Rightarrow> nat \<Rightarrow> 'w loop_ctx" where
  "state_after cfg w k = (step cfg ^^ k) (init w)"

definition completed_iterations :: "'w run_config \<Rightarrow> 'w \<Rightarrow> nat \<Rightarrow> nat" where
  "completed_iterations cfg w k =
     length (filter (\<lambda>j. phase (state_after cfg w j) = SIMULATING) [0..<k])"

text \<open>
  What holds in every state a run passes through: the PipelineRun records are numbered
  \<open>1, 2, \<dots>\<close> up to the count of completed iterations; an iteration under way has room
  in the budget and follows only FAILED verdicts; DONE(PASSED) follows a PASSED verdict and
  DONE(EXHAUSTED) a spent budget.
\<close>

definition loop_inv :: "'w run_config \<Rightarrow> 'w loop_ctx \<Rightarrow> bool" where
  "loop_inv cfg c =
     (length (pipeline_runs c) = iteration_count c
      \<and> map iteration (pipeline_runs c) = [1..<Suc (iteration_count c)]
      \<and> (case phase c of
            READY \<Rightarrow> iteration_count c = 0
          | DONE_PASSED \<Rightarrow>
              iteration_count c \<le> max_iterations cfg
              \<and> pipeline_runs c \<noteq> [] \<and> run_status (last (pipeline_runs c)) = PASSED
          | DONE_EXHAUSTED \<Rightarrow>
              iteration_count c = max_iterations cfg
              \<and> (pipeline_runs c = [] \<or> run_status (last (pipeline_runs c)) = FAILED)
          | _ \<Rightarrow>
              iteration_count c < max_iterations cfg
              \<and> (pipeline_runs c = [] \<or> run_status (last (pipeline_runs c)) = FAILED)))"

text \<open>An upper bound on the transitions a state still has before a DONE state.\<close>

definition potential :: "'w run_config \<Rightarrow> 'w loop_ctx \<Rightarrow> nat" where
  "potential cfg c =
     (case phase c of
        READY \<Rightarrow> 3 * max_iterations cfg + 1
      | SCANNING \<Rightarrow> 3 * (max_iterations cfg - iteration_count c)
      | FIXING \<Rightarrow> 3 * (max_iterations cfg - iteration_count c) - 1
      | SIMULATING \<Rightarrow> 3 * (max_iterations cfg - iteration_count c) - 2
      | DONE_PASSED \<Rightarrow> 0
      | DONE_EXHAUSTED \<Rightarrow> 0)"

subsection \<open>Example capabilities\<close>

text \<open>
  For concrete runs only; they stand for no code of the repository. The working copy is
  abstracted to the list of defects it contains: scanning lists them, a fix removes its
  defect unless it is a TYPE_ERROR, which the example engine cannot rewrite, and the
  pipeline is the minimal design of \<open>evaluate\<close> on what is left.
\<close>

definition demo_fix :: "finding \<Rightarrow> finding list \<Rightarrow> fix_entry \<times> finding list" where
  "demo_fix f w =
     (if defect_kind f = TYPE_ERROR
      then (\<lparr>file_name = finding_file f, bug_type = defect_kind f, line_number = finding_line f,
             commit_message = ''[AI-AGENT] no safe rewrite'', status = Failed,
             fix_detail = ''ambiguous match''\<rparr>, w)
      else (\<lparr>file_name = finding_file f, bug_type = defect_kind f, line_number = finding_line f,
             commit_message = ''[AI-AGENT] fix'', status = Fixed,
             fix_detail = ''rewritten''\<rparr>, removeAll f w))"

definition demo_config :: "nat \<Rightarrow> finding list run_config" where
  "demo_config n =
     \<lparr>max_iterations = n, scan = (\<lambda>w. w), apply_fix = demo_fix,
      simulate = (\<lambda>w xs. Some (evaluate \<lparr>remaining_findings = w, current_fixes = xs\<rparr>)),
      clock = (\<lambda>n. 10 * real n)\<rparr>"

definition unused_import :: finding where
  "unused_import =
     \<lparr>finding_file = ''a.py'', defect_kind = LINTING, finding_line = 1,
      matched_text = ''import os'', severity = ''low''\<rparr>"

definition bad_type :: finding where
  "bad_type =
     \<lparr>finding_file = ''b.py'', defect_kind = TYPE_ERROR, finding_line = 3,
      matched_text = ''x: int = None + 1'', severity = ''high''\<rparr>"

definition fixed_entry :: fix_entry where
  "fixed_entry =
     \<lparr>file_name = ''a.py'', bug_type = LINTING, line_number = 1,
      commit_message = ''[AI-AGENT] fix'', status = Fixed, fix_detail = ''rewritten''\<rparr>"

definition failed_entry :: fix_entry where
  "failed_entry =
     \<lparr>file_name = ''b.py'', bug_type = TYPE_ERROR, line_number = 3,
      commit_message = ''[AI-AGENT] no safe rewrite'', status = Failed,
      fix_detail = ''ambiguous match''\<rparr>"

section \<open>Properties of the score\<close>

text \<open>
  C1. For a result with \<open>total_fixes_applied = f \<ge> 0\<close> and \<open>total_time_taken = t \<ge> 0\<close>
  the score is \<open>max 0 (100 + (if t < 300 then 10 else 0) - (if f > 20 then (f - 20) * 2 else 0))\<close>:
  it starts at 100, gains 10 exactly when \<open>t\<close> is strictly below 300 seconds, loses 2 for
  every fix beyond the twentieth, and is clamped at 0 from below.
\<close>

theorem calculateScore_formula:
  assumes "0 \<le> total_fixes_applied r" and "0 \<le> total_time_taken r"
  shows "calculateScore (Some r) =
           max 0 (100 + (if total_time_taken r < 300 then 10 else 0)
                      - (if total_fixes_applied r > 20
                         then (total_fixes_applied r - 20) * 2 else 0))"
  by (simp add: calculateScore_def Let_def max.commute)

theorem calculateScore_formula_witness:
  "0 \<le> total_fixes_applied (mk_results 30 (452 / 10))
   \<and> 0 \<le> total_time_taken (mk_results 30 (452 / 10))
   \<and> calculateScore (Some (mk_results 30 (452 / 10))) = 90"
  using calculateScore_formula [of "mk_results 30 (452 / 10)"]
  by (simp add: mk_results_def)

text \<open>
  C2. Scenario D: with \<open>total_fixes_applied = 25\<close> and \<open>total_time_taken = 250\<close> the
  score is exactly \<open>100\<close>: the base of 100, plus the speed bonus of 10, minus the penalty
  of 10 for the five fixes beyond the twentieth.
\<close>

theorem calculateScore_scenario_D:
  "calculateScore (Some (mk_results 25 250)) = 100"
  by (simp add: calculateScore_def mk_results_def)

text \<open>
  C8. With no run result (\<^verbatim>\<open>results\<close> is \<^verbatim>\<open>null\<close>) the score is \<open>0\<close>, not the
  base of 100; the base applies once a result object exists (an object with no fixes
  and a slow run scores exactly 100).
\<close>

theorem calculateScore_null:
  "calculateScore None = 0 \<and> calculateScore (Some (mk_results 0 300)) = 100"
  by (simp add: calculateScore_def mk_results_def)

text \<open>
  C3. With \<open>total_time_taken\<close> held fixed the score does not increase as
  \<open>total_fixes_applied\<close> grows from 20 on: for \<open>20 \<le> f1 \<le> f2\<close> the score at \<open>f2\<close> is at
  most the score at \<open>f1\<close>. And on every input, \<^verbatim>\<open>null\<close> included, the score is at
  least 0.
\<close>

theorem calculateScore_antitone_nonneg:
  "(20 \<le> total_fixes_applied r1 \<and> total_fixes_applied r1 \<le> total_fixes_applied r2
      \<and> total_time_taken r2 = total_time_taken r1
      \<longrightarrow> calculateScore (Some r2) \<le> calculateScore (Some r1))
   \<and> 0 \<le> calculateScore res"
  by (cases res) (auto simp: calculateScore_def Let_def)

theorem calculateScore_antitone_nonneg_witness:
  "20 \<le> total_fixes_applied (mk_results 25 250)
   \<and> total_fixes_applied (mk_results 25 250) \<le> total_fixes_applied (mk_results 40 250)
   \<and> total_time_taken (mk_results 40 250) = total_time_taken (mk_results 25 250)
   \<and> calculateScore (Some (mk_results 40 250)) \<le> calculateScore (Some (mk_results 25 250))
   \<and> 0 \<le> calculateScore (Some (mk_results 80 250))"
  using calculateScore_antitone_nonneg
          [of "mk_results 25 250" "mk_results 40 250" "Some (mk_results 80 250)"]
  by (simp add: mk_results_def)

text \<open>
  C10. The score reads only \<open>total_time_taken\<close> and \<open>total_fixes_applied\<close>: two result
  objects that agree on these two fields get the same score, whatever their other fields
  (fixes, pipeline runs, status, branch, metadata, and any field the dashboard does not
  know) hold. As a function of the result it gives the same value on every call.
\<close>

theorem calculateScore_two_fields_only:
  assumes "total_time_taken r1 = total_time_taken r2"
    and "total_fixes_applied r1 = total_fixes_applied r2"
  shows "calculateScore (Some r1) = calculateScore (Some r2)"
  using assms by (simp add: calculateScore_def)

theorem calculateScore_two_fields_only_witness:
  "total_time_taken (mk_results 25 250) = total_time_taken other_results
   \<and> total_fixes_applied (mk_results 25 250) = total_fixes_applied other_results
   \<and> mk_results 25 250 \<noteq> other_results
   \<and> calculateScore (Some (mk_results 25 250)) = calculateScore (Some other_results)"
  using calculateScore_two_fields_only [of "mk_results 25 250" other_results]
  by (simp add: mk_results_def other_results_def)

section \<open>Properties of the run handler\<close>

text \<open>
  C9. If the repository URL, the team name or the leader name is empty, \<open>handleRun\<close> sets
  the error message \<open>Please fill in all required fields\<close> and does nothing else: no analyze
  request is issued and the loading state is not entered. If all three are non-empty, the
  error is cleared first and exactly one POST goes to the analyze endpoint, carrying the
  form's four fields. Nothing is asked of the GitHub token: the request goes out with an
  empty token as well.
\<close>

theorem handleRun_required_fields:
  "(repoUrl fd = [] \<or> teamName fd = [] \<or> leaderName fd = [] \<longrightarrow>
      handleRun fd post = [SetError ''Please fill in all required fields'']
      \<and> posts (handleRun fd post) = []
      \<and> SetLoading True \<notin> set (handleRun fd post)
      \<and> loading (run_effects (handleRun fd post) s) = loading s)
   \<and> (repoUrl fd \<noteq> [] \<and> teamName fd \<noteq> [] \<and> leaderName fd \<noteq> [] \<longrightarrow>
      take 2 (handleRun fd post) = [SetError [], SetLoading True]
      \<and> posts (handleRun fd post) = [(''http://localhost:8000/analyze'', request_body fd)])"
  by (auto simp: handleRun_def posts_def run_effects_def
           split: post_outcome.splits option.splits)

theorem handleRun_required_fields_witness:
  "(repoUrl form_no_leader = [] \<or> teamName form_no_leader = [] \<or> leaderName form_no_leader = [])
   \<and> handleRun form_no_leader server_ok = [SetError ''Please fill in all required fields'']
   \<and> posts (handleRun form_no_leader server_ok) = []
   \<and> repoUrl form_no_token \<noteq> [] \<and> teamName form_no_token \<noteq> [] \<and> leaderName form_no_token \<noteq> []
   \<and> githubToken form_no_token = []
   \<and> take 2 (handleRun form_no_token server_down) = [SetError [], SetLoading True]
   \<and> posts (handleRun form_no_token server_down)
       = [(''http://localhost:8000/analyze'', request_body form_no_token)]"
  using handleRun_required_fields [of form_no_leader server_ok "\<lparr>loading = False, results = None, error = []\<rparr>"]
        handleRun_required_fields [of form_no_token server_down "\<lparr>loading = False, results = None, error = []\<rparr>"]
  by (simp add: form_no_leader_def form_no_token_def posts_def)

section \<open>Properties of the healing core\<close>

subsection \<open>Invariant, progress and the loop as iterated transitions\<close>

lemma loop_inv_init: "loop_inv cfg (init w)"
  by (simp add: loop_inv_def init_def)

lemma loop_inv_step: "loop_inv cfg c \<Longrightarrow> loop_inv cfg (step cfg c)"
  by (cases "phase c") (auto simp: loop_inv_def step_def Let_def split: prod.splits)

lemma step_done: "is_done c \<Longrightarrow> step cfg c = c"
  by (auto simp: is_done_def step_def)

lemma loop_inv_state_after: "loop_inv cfg (state_after cfg w k)"
  by (induction k) (simp_all add: state_after_def loop_inv_init loop_inv_step)

lemma potential_step:
  "loop_inv cfg c \<Longrightarrow> \<not> is_done c \<Longrightarrow> potential cfg (step cfg c) < potential cfg c"
  by (cases "phase c")
     (auto simp: potential_def loop_inv_def step_def is_done_def Let_def split: prod.splits)

lemma done_within:
  "loop_inv cfg c \<Longrightarrow> potential cfg c \<le> n \<Longrightarrow> is_done ((step cfg ^^ n) c)"
proof (induction n arbitrary: c)
  case 0
  then show ?case by (cases "phase c") (auto simp: potential_def is_done_def loop_inv_def)
next
  case (Suc n)
  show ?case
  proof (cases "is_done c")
    case True
    then have "(step cfg ^^ Suc n) c = c"
      by (induction n) (simp_all add: step_done)
    with True show ?thesis by simp
  next
    case False
    with Suc.prems have "potential cfg (step cfg c) \<le> n"
      using potential_step [of cfg c] by simp
    with Suc.IH [of "step cfg c"] Suc.prems(1) show ?thesis
      by (simp add: loop_inv_step funpow_swap1)
  qed
qed

lemma run_done: "is_done c \<Longrightarrow> run cfg c = c"
  by (subst run.simps) simp

lemma run_step: "\<not> is_done c \<Longrightarrow> run cfg c = run cfg (step cfg c)"
  by (subst run.simps) simp

lemma run_funpow: "is_done ((step cfg ^^ n) c) \<Longrightarrow> run cfg c = (step cfg ^^ n) c"
proof (induction n arbitrary: c)
  case 0
  then show ?case by (simp add: run_done)
next
  case (Suc n)
  show ?case
  proof (cases "is_done c")
    case True
    then have "(step cfg ^^ Suc n) c = c"
      by (induction n) (simp_all add: step_done)
    with True show ?thesis by (simp add: run_done)
  next
    case False
    with Suc show ?thesis by (simp add: funpow_swap1 run_step)
  qed
qed

lemma step_count:
  "iteration_count (step cfg c) = (if phase c = SIMULATING then Suc (iteration_count c) else iteration_count c)"
  by (cases "phase c") (auto simp: step_def Let_def split: prod.splits)

lemma count_completed: "iteration_count (state_after cfg w k) = completed_iterations cfg w k"
  by (induction k) (simp_all add: state_after_def completed_iterations_def init_def step_count)

lemma loop_inv_count_le: "loop_inv cfg c \<Longrightarrow> iteration_count c \<le> max_iterations cfg"
  by (cases "phase c") (auto simp: loop_inv_def)

lemma loop_inv_done_phase:
  "loop_inv cfg c \<Longrightarrow> is_done c \<Longrightarrow>
     phase c = (if pipeline_runs c \<noteq> [] \<and> run_status (last (pipeline_runs c)) = PASSED
                then DONE_PASSED else DONE_EXHAUSTED)"
  by (auto simp: loop_inv_def is_done_def)

lemma step_runs:
  "\<exists>r. pipeline_runs (step cfg c) = pipeline_runs c @ (if phase c = SIMULATING then [r] else [])"
  by (cases "phase c") (auto simp: step_def Let_def split: prod.splits)

lemma state_after_Suc: "state_after cfg w (Suc k) = step cfg (state_after cfg w k)"
  by (simp add: state_after_def)

lemma potential_init: "potential cfg (init w) = 3 * max_iterations cfg + 1"
  by (simp add: potential_def init_def)

lemma run_reaches:
  "run cfg (init w) = state_after cfg w (3 * max_iterations cfg + 1)
   \<and> is_done (run cfg (init w))"
proof -
  have d: "is_done ((step cfg ^^ (3 * max_iterations cfg + 1)) (init w))"
    by (rule done_within [OF loop_inv_init]) (simp add: potential_init)
  from run_funpow [OF d] d show ?thesis
    by (simp add: state_after_def)
qed

lemma heal_runs:
  "cicd_runs (heal cfg base w) = pipeline_runs (run cfg (init w))
   \<and> total_iterations (heal cfg base w) = int (length (pipeline_runs (run cfg (init w))))"
proof -
  have "loop_inv cfg (run cfg (init w))"
    using run_reaches [of cfg w] loop_inv_state_after [of cfg w "3 * max_iterations cfg + 1"]
    by simp
  then show ?thesis
    by (simp add: heal_def finalize_def loop_inv_def)
qed

text \<open>
  What the dashboard shows for a result of the loop: the iterations over the same number,
  or \<open>0\<close> over \<open>5\<close> when no iteration ran.
\<close>

lemma iterations_display_heal:
  "iterations_display (heal cfg base w) =
     (if cicd_runs (heal cfg base w) = [] then (0, 5)
      else (int (length (cicd_runs (heal cfg base w))), int (length (cicd_runs (heal cfg base w)))))"
  using heal_runs [of cfg base w] by (simp add: iterations_display_def)

subsection \<open>The scenarios of section 8 on the example capabilities\<close>

text \<open>
  Scenario A: one unused import and nothing else gives one iteration, one LINTING Finding,
  one Fixed Fix and a PASSED pipeline.
\<close>

lemma scenario_A:
  "total_iterations (heal (demo_config 5) (mk_results 0 0) [unused_import]) = 1
   \<and> total_failures_detected (heal (demo_config 5) (mk_results 0 0) [unused_import]) = 1
   \<and> map bug_type (result_fixes (heal (demo_config 5) (mk_results 0 0) [unused_import])) = [LINTING]
   \<and> map status (result_fixes (heal (demo_config 5) (mk_results 0 0) [unused_import])) = [Fixed]
   \<and> cicd_status (heal (demo_config 5) (mk_results 0 0) [unused_import]) = PASSED"
  by code_simp

text \<open>
  Scenario B: a TYPE_ERROR that cannot be rewritten gives a Failed Fix in every iteration,
  exactly \<open>max_iterations\<close> iterations and the terminal state EXHAUSTED.
\<close>

lemma scenario_B:
  "total_iterations (heal (demo_config 5) (mk_results 0 0) [bad_type]) = 5
   \<and> map status (result_fixes (heal (demo_config 5) (mk_results 0 0) [bad_type]))
       = [Failed, Failed, Failed, Failed, Failed]
   \<and> phase (run (demo_config 5) (init [bad_type])) = DONE_EXHAUSTED"
  by code_simp

text \<open>
  Scenario C: with \<open>max_iterations = 0\<close> nothing is scanned, the result reports no
  iteration, no PipelineRun and no Fix, and the terminal state is EXHAUSTED.
\<close>

lemma scenario_C:
  "state_after (demo_config 0) [bad_type] 1 = run (demo_config 0) (init [bad_type])
   \<and> phase (run (demo_config 0) (init [bad_type])) = DONE_EXHAUSTED
   \<and> total_iterations (heal (demo_config 0) (mk_results 0 0) [bad_type]) = 0
   \<and> total_failures_detected (heal (demo_config 0) (mk_results 0 0) [bad_type]) = 0
   \<and> cicd_runs (heal (demo_config 0) (mk_results 0 0) [bad_type]) = []
   \<and> result_fixes (heal (demo_config 0) (mk_results 0 0) [bad_type]) = []"
proof -
  have "state_after (demo_config 0) [bad_type] 1 = run (demo_config 0) (init [bad_type])"
    using run_reaches [of "demo_config 0" "[bad_type]"] by (simp add: demo_config_def)
  moreover have "phase (run (demo_config 0) (init [bad_type])) = DONE_EXHAUSTED
   \<and> total_iterations (heal (demo_config 0) (mk_results 0 0) [bad_type]) = 0
   \<and> total_failures_detected (heal (demo_config 0) (mk_results 0 0) [bad_type]) = 0
   \<and> cicd_runs (heal (demo_config 0) (mk_results 0 0) [bad_type]) = []
   \<and> result_fixes (heal (demo_config 0) (mk_results 0 0) [bad_type]) = []"
    by code_simp
  ultimately show ?thesis by blast
qed

subsection \<open>The claims\<close>

text \<open>
  C4. For every working copy state the Pipeline Simulator's verdict is PASSED if and only
  if no unresolved Findings remain and no Fix of the current iteration has status Failed,
  and FAILED in every other case. The verdict is a function of the working copy state and
  nothing else; the SIMULATING transition, which asks for it, leaves the working copy, the
  Fix sequences, the Findings and the failure count of the run as they were.
\<close>

theorem evaluate_verdict:
  "(evaluate ws = PASSED \<longleftrightarrow>
      remaining_findings ws = [] \<and> (\<forall>x \<in> set (current_fixes ws). status x \<noteq> Failed))
   \<and> (evaluate ws = FAILED \<longleftrightarrow>
      \<not> (remaining_findings ws = [] \<and> (\<forall>x \<in> set (current_fixes ws). status x \<noteq> Failed)))
   \<and> (phase c = SIMULATING \<longrightarrow>
        working_copy (step cfg c) = working_copy c
        \<and> all_fixes (step cfg c) = all_fixes c
        \<and> iteration_fixes (step cfg c) = iteration_fixes c
        \<and> findings (step cfg c) = findings c
        \<and> failures_detected (step cfg c) = failures_detected c)"
  by (auto simp: evaluate_def filter_empty_conv step_def Let_def)

theorem evaluate_verdict_witness:
  "evaluate \<lparr>remaining_findings = [], current_fixes = [fixed_entry]\<rparr> = PASSED
   \<and> evaluate \<lparr>remaining_findings = [], current_fixes = [fixed_entry, failed_entry]\<rparr> = FAILED
   \<and> evaluate \<lparr>remaining_findings = [bad_type], current_fixes = [fixed_entry]\<rparr> = FAILED
   \<and> phase (state_after (demo_config 5) [bad_type] 3) = SIMULATING
   \<and> working_copy (state_after (demo_config 5) [bad_type] 4)
       = working_copy (state_after (demo_config 5) [bad_type] 3)"
proof -
  let ?c = "state_after (demo_config 5) [bad_type] 3"
  have sim: "phase ?c = SIMULATING"
    by code_simp
  have nxt: "state_after (demo_config 5) [bad_type] 4 = step (demo_config 5) ?c"
    by (simp add: state_after_def eval_nat_numeral)
  from evaluate_verdict [of "\<lparr>remaining_findings = [], current_fixes = [fixed_entry]\<rparr>"
                            ?c "demo_config 5"]
       evaluate_verdict [of "\<lparr>remaining_findings = [], current_fixes = [fixed_entry, failed_entry]\<rparr>"
                            ?c "demo_config 5"]
       evaluate_verdict [of "\<lparr>remaining_findings = [bad_type], current_fixes = [fixed_entry]\<rparr>"
                            ?c "demo_config 5"]
       sim nxt
  show ?thesis
    by (simp add: fixed_entry_def failed_entry_def)
qed

text \<open>
  C5. In every state a run of the Healing Loop passes through, the number of PipelineRun
  records equals the number of iterations completed so far and is at most
  \<open>max_iterations\<close>; the records are numbered \<open>1, 2, \<dots>\<close>, and a transition appends
  exactly one record when it completes an iteration and none otherwise. The loop ends in
  one of these states, so the same holds of the final AnalysisResult, whose
  \<open>total_iterations\<close> is the number of its PipelineRun records. The run ends as
  DONE(PASSED) exactly when its last PipelineRun is PASSED, and as DONE(EXHAUSTED)
  otherwise.
\<close>

theorem healing_loop_runs:
  "length (pipeline_runs (state_after cfg w k)) = completed_iterations cfg w k
   \<and> completed_iterations cfg w k \<le> max_iterations cfg
   \<and> map iteration (pipeline_runs (state_after cfg w k)) = [1..<Suc (completed_iterations cfg w k)]
   \<and> (\<exists>r. pipeline_runs (state_after cfg w (Suc k))
            = pipeline_runs (state_after cfg w k)
              @ (if phase (state_after cfg w k) = SIMULATING then [r] else []))
   \<and> (\<exists>n. run cfg (init w) = state_after cfg w n)
   \<and> cicd_runs (heal cfg base w) = pipeline_runs (run cfg (init w))
   \<and> total_iterations (heal cfg base w) = int (length (cicd_runs (heal cfg base w)))
   \<and> length (cicd_runs (heal cfg base w)) \<le> max_iterations cfg
   \<and> phase (run cfg (init w))
       = (if cicd_runs (heal cfg base w) \<noteq> []
             \<and> run_status (last (cicd_runs (heal cfg base w))) = PASSED
          then DONE_PASSED else DONE_EXHAUSTED)"
proof -
  let ?c = "state_after cfg w k"
  let ?f = "run cfg (init w)"
  have inv: "loop_inv cfg ?c"
    by (rule loop_inv_state_after)
  have cnt: "iteration_count ?c = completed_iterations cfg w k"
    by (rule count_completed)
  have len: "length (pipeline_runs ?c) = completed_iterations cfg w k"
    using inv cnt by (simp add: loop_inv_def)
  have le: "completed_iterations cfg w k \<le> max_iterations cfg"
    using loop_inv_count_le [OF inv] cnt by simp
  have idx: "map iteration (pipeline_runs ?c) = [1..<Suc (completed_iterations cfg w k)]"
    using inv cnt by (simp add: loop_inv_def)
  have one: "\<exists>r. pipeline_runs (state_after cfg w (Suc k))
               = pipeline_runs ?c @ (if phase ?c = SIMULATING then [r] else [])"
    unfolding state_after_Suc by (rule step_runs)
  have fin: "?f = state_after cfg w (3 * max_iterations cfg + 1)" and dn: "is_done ?f"
    using run_reaches [of cfg w] by blast+
  have finv: "loop_inv cfg ?f"
    unfolding fin by (rule loop_inv_state_after)
  have ex: "\<exists>n. ?f = state_after cfg w n"
    using fin by blast
  have runs: "cicd_runs (heal cfg base w) = pipeline_runs ?f"
    by (simp add: heal_def finalize_def)
  have tot: "total_iterations (heal cfg base w) = int (length (cicd_runs (heal cfg base w)))"
    using finv by (simp add: heal_def finalize_def loop_inv_def)
  have fle: "length (cicd_runs (heal cfg base w)) \<le> max_iterations cfg"
    using loop_inv_count_le [OF finv] finv by (simp add: runs loop_inv_def)
  have ph: "phase ?f = (if cicd_runs (heal cfg base w) \<noteq> []
                           \<and> run_status (last (cicd_runs (heal cfg base w))) = PASSED
                        then DONE_PASSED else DONE_EXHAUSTED)"
    unfolding runs by (rule loop_inv_done_phase [OF finv dn])
  from len le idx one ex runs tot fle ph show ?thesis
    by blast
qed

theorem healing_loop_runs_witness:
  "completed_iterations (demo_config 5) [bad_type] 16 = 5
   \<and> length (pipeline_runs (state_after (demo_config 5) [bad_type] 16)) = 5
   \<and> max_iterations (demo_config 5) = 5
   \<and> total_iterations (heal (demo_config 5) (mk_results 0 0) [bad_type]) = 5
   \<and> phase (run (demo_config 5) (init [bad_type])) = DONE_EXHAUSTED
   \<and> total_iterations (heal (demo_config 5) (mk_results 0 0) [unused_import]) = 1
   \<and> phase (run (demo_config 5) (init [unused_import])) = DONE_PASSED"
proof -
  have m: "max_iterations (demo_config 5) = 5"
    by (simp add: demo_config_def)
  have r: "state_after (demo_config 5) [bad_type] 16 = run (demo_config 5) (init [bad_type])"
    using run_reaches [of "demo_config 5" "[bad_type]"] by (simp add: m)
  have e1: "completed_iterations (demo_config 5) [bad_type] 16 = 5"
    unfolding count_completed [symmetric] r by code_simp
  have l2: "length (cicd_runs (heal (demo_config 5) (mk_results 0 0) [bad_type])) = 5"
    by code_simp
  have s2: "run_status (last (cicd_runs (heal (demo_config 5) (mk_results 0 0) [bad_type]))) = FAILED"
    by code_simp
  have l3: "length (cicd_runs (heal (demo_config 5) (mk_results 0 0) [unused_import])) = 1"
    by code_simp
  have s3: "run_status (last (cicd_runs (heal (demo_config 5) (mk_results 0 0) [unused_import]))) = PASSED"
    by code_simp
  have n3: "cicd_runs (heal (demo_config 5) (mk_results 0 0) [unused_import]) \<noteq> []"
    using l3 by auto
  from healing_loop_runs [of "demo_config 5" "[bad_type]" 16 "mk_results 0 0"]
       healing_loop_runs [of "demo_config 5" "[unused_import]" 16 "mk_results 0 0"]
       e1 l2 s2 l3 s3 n3 m
  show ?thesis
    by simp
qed

text \<open>
  C7. For every working copy, every behaviour of the capabilities and every
  \<open>max_iterations\<close>, the Healing Loop terminates: it reaches a DONE state within
  \<open>3 * max_iterations + 1\<close> transitions, having executed no more than \<open>max_iterations\<close>
  scan, fix, simulate iterations, and this number is the \<open>total_iterations\<close> it reports.
  The loop is a total function: its definition carries the termination proof. (The bound
  is attained when every verdict is FAILED, as in Scenario B: with the default of 5 the
  run below executes exactly 5.)
\<close>

theorem healing_loop_terminates:
  "\<exists>k \<le> 3 * max_iterations cfg + 1.
      run cfg (init w) = state_after cfg w k
      \<and> is_done (run cfg (init w))
      \<and> iteration_count (run cfg (init w)) = completed_iterations cfg w k
      \<and> completed_iterations cfg w k \<le> max_iterations cfg
      \<and> total_iterations (heal cfg base w) = int (completed_iterations cfg w k)"
proof -
  let ?k = "3 * max_iterations cfg + 1"
  have fin: "run cfg (init w) = state_after cfg w ?k" and dn: "is_done (run cfg (init w))"
    using run_reaches [of cfg w] by blast+
  have cnt: "iteration_count (state_after cfg w ?k) = completed_iterations cfg w ?k"
    by (rule count_completed)
  have le: "completed_iterations cfg w ?k \<le> max_iterations cfg"
    using loop_inv_count_le [OF loop_inv_state_after, of cfg w ?k] cnt by simp
  have tot: "total_iterations (heal cfg base w) = int (completed_iterations cfg w ?k)"
    using fin cnt by (simp add: heal_def finalize_def)
  from fin dn cnt le tot show ?thesis
    by (intro exI [of _ ?k]) simp
qed

theorem healing_loop_terminates_witness:
  "(\<exists>k \<le> 16.
      run (demo_config default_max_iterations) (init [bad_type])
        = state_after (demo_config default_max_iterations) [bad_type] k
      \<and> is_done (run (demo_config default_max_iterations) (init [bad_type]))
      \<and> iteration_count (run (demo_config default_max_iterations) (init [bad_type]))
          = completed_iterations (demo_config default_max_iterations) [bad_type] k
      \<and> completed_iterations (demo_config default_max_iterations) [bad_type] k \<le> 5
      \<and> total_iterations (heal (demo_config default_max_iterations) (mk_results 0 0) [bad_type])
          = int (completed_iterations (demo_config default_max_iterations) [bad_type] k))
   \<and> iteration_count (run (demo_config default_max_iterations) (init [bad_type])) = 5"
proof -
  have five: "iteration_count (run (demo_config 5) (init [bad_type])) = 5"
    by code_simp
  from healing_loop_terminates
         [of "demo_config default_max_iterations" "[bad_type]" "mk_results 0 0"] five
  show ?thesis
    by (simp add: demo_config_def default_max_iterations_def)
qed

end
